theory Spec2Isabelle
  imports Main
begin

section \<open>JavaScript values and errors\<close>

text \<open>
  The adapter lives in \<^verbatim>\<open>src/tools.ts\<close>. A thrown value is either an instance of the
  adapter's own class \<^verbatim>\<open>ToolException\<close> (whose constructor sets \<^verbatim>\<open>name\<close> to
  "ToolException") or some other \<^verbatim>\<open>Error\<close> with its own name and message. The test
  \<^verbatim>\<open>error instanceof ToolException\<close> is the test for the first constructor.
\<close>

datatype js_error =
    ToolException (message: string)
  | OtherError (other_name: string) (message: string)

fun instanceof_ToolException :: "js_error \<Rightarrow> bool" where
  "instanceof_ToolException (ToolException m) = True"
| "instanceof_ToolException (OtherError n m) = False"

fun error_name :: "js_error \<Rightarrow> string" where
  "error_name (ToolException m) = ''ToolException''"
| "error_name (OtherError n m) = n"

text \<open>\<^verbatim>\<open>String(error)\<close> is \<^verbatim>\<open>Error.prototype.toString\<close>.\<close>

definition String_error :: "js_error \<Rightarrow> string" where
  "String_error e =
     (if error_name e = [] then message e
      else if message e = [] then error_name e
      else error_name e @ '': '' @ message e)"

text \<open>
  What a caller can test of an error without reading its message: whether it is an
  instance of \<^verbatim>\<open>ToolException\<close>, and its \<^verbatim>\<open>name\<close>.
\<close>

definition error_type :: "js_error \<Rightarrow> bool \<times> string" where
  "error_type e = (instanceof_ToolException e, error_name e)"

text \<open>
  Optional string properties: \<open>None\<close> is an absent (\<^verbatim>\<open>undefined\<close>) property. An absent
  property and the empty string are the falsy values; a template literal prints an absent
  property as "undefined", \<^verbatim>\<open>Array.prototype.join\<close> prints it as the empty string.
\<close>

fun truthy :: "string option \<Rightarrow> bool" where
  "truthy None = False"
| "truthy (Some s) = (s \<noteq> [])"

fun tmpl :: "string option \<Rightarrow> string" where
  "tmpl None = ''undefined''"
| "tmpl (Some s) = s"

fun join_elem :: "string option \<Rightarrow> string" where
  "join_elem None = []"
| "join_elem (Some s) = s"

fun join :: "string \<Rightarrow> string option list \<Rightarrow> string" where
  "join sep [] = []"
| "join sep [x] = join_elem x"
| "join sep (x # y # ys) = join_elem x @ sep @ join sep (y # ys)"

definition apostrophe :: string where
  "apostrophe = [CHR 0x27]"

definition newline :: string where
  "newline = [CHR 0x0A]"

section \<open>Data model\<close>

text \<open>
  Modelled from the spec: the protocol's type declarations (\<^verbatim>\<open>CallToolResult\<close>,
  \<^verbatim>\<open>TextContent\<close>, \<^verbatim>\<open>ImageContent\<close>, \<^verbatim>\<open>EmbeddedResource\<close>, \<^verbatim>\<open>ReadResourceResult\<close>,
  \<^verbatim>\<open>Tool\<close>) are imported by \<^verbatim>\<open>tools.ts\<close> from the protocol library; the records below take
  their fields from the spec's data model and from the properties \<^verbatim>\<open>tools.ts\<close> reads.

  The parts of a \<^verbatim>\<open>ReadResourceResult\<close>, and the nested \<^verbatim>\<open>resource\<close> object of an
  embedded resource.
\<close>

record resource_contents =
  rc_uri :: string
  rc_mimeType :: "string option"
  rc_text :: "string option"
  rc_blob :: "string option"

text \<open>
  Modelled from the spec: the content block, a tagged union over text, image and resource.
  A content block of a call result is a JavaScript object: a \<^verbatim>\<open>type\<close> tag and the
  properties the adapter reads, each of which may be absent. A text block carries
  \<^verbatim>\<open>text\<close>; an image block \<^verbatim>\<open>mimeType\<close> and \<^verbatim>\<open>data\<close>; a resource block the optional
  top-level \<^verbatim>\<open>uri\<close>, \<^verbatim>\<open>blob\<close>, \<^verbatim>\<open>text\<close> and the nested \<^verbatim>\<open>resource\<close>.
\<close>

record content_block =
  cb_type :: string
  cb_text :: "string option"
  cb_mimeType :: "string option"
  cb_data :: "string option"
  cb_uri :: "string option"
  cb_blob :: "string option"
  cb_resource :: "resource_contents option"

text \<open>
  Modelled from the spec: the call result, \<^verbatim>\<open>{content, isError}\<close>.
  The \<^verbatim>\<open>content\<close> property of a result as it arrives: an array of blocks, or any other
  JSON value, or absent. Of a value that is not an array the adapter observes only
  \<^verbatim>\<open>typeof\<close>.
\<close>

datatype js_content =
    ContentArray "content_block list"
  | ContentUndefined
  | ContentNull
  | ContentBoolean bool
  | ContentNumber int
  | ContentString string
  | ContentObject

fun typeof :: "js_content \<Rightarrow> string" where
  "typeof (ContentArray bs) = ''object''"
| "typeof ContentUndefined = ''undefined''"
| "typeof ContentNull = ''object''"
| "typeof (ContentBoolean b) = ''boolean''"
| "typeof (ContentNumber n) = ''number''"
| "typeof (ContentString s) = ''string''"
| "typeof ContentObject = ''object''"

record call_tool_result =
  ctr_content :: js_content
  ctr_isError :: "bool option"

text \<open>
  Modelled from the spec: the normalized fragments, \<^verbatim>\<open>{type: text, text}\<close> and
  \<^verbatim>\<open>{type: image_url, image_url: {url}}\<close>; the framework's \<^verbatim>\<open>MessageContentComplex\<close>.
\<close>

datatype message_content_complex =
    MessageContentText "string option"
  | MessageContentImageUrl string

text \<open>
  Modelled from the spec: the primary content, the framework's \<^verbatim>\<open>MessageContent\<close>: a
  bare value (the \<^verbatim>\<open>text\<close> property of a text fragment) or the fragment sequence.
\<close>

datatype message_content =
    Bare "string option"
  | Fragments "message_content_complex list"

section \<open>The client and its calls\<close>

text \<open>
  The requests the adapter issues to the connection and the lines it hands to the debug
  logger are recorded, in program order, in a trace that every operation returns beside
  its result. A rejected promise is the \<open>Inl\<close> of a sum.
\<close>

datatype 'a event =
    ListTools
  | CallTool string 'a
  | ReadResource string
  | DebugLog string
  | DebugLogError string js_error

text \<open>A JSON value, for the declared input schema of a tool.\<close>

datatype json =
    JNull
  | JBool bool
  | JNum int
  | JStr string
  | JArr "json list"
  | JObj "(string \<times> json) list"

text \<open>
  Modelled from the spec: the tool descriptor, \<^verbatim>\<open>{name, description, inputSchema}\<close>; each
  property may be absent in what a server sends.
\<close>

record MCPTool =
  tool_name :: "string option"
  tool_description :: "string option"
  tool_inputSchema :: "json option"

text \<open>
  Modelled from the spec: the connection's three operations, \<^verbatim>\<open>listTools\<close>, \<^verbatim>\<open>callTool\<close>
  and \<^verbatim>\<open>readResource\<close>. A call to \<^verbatim>\<open>callTool\<close> may return a missing result. The type
  parameter is the type of the call arguments. \<open>client_readLatency\<close> is how long the
  connection takes to settle the read of a uri; it orders the completions of reads that
  are in flight together.
\<close>

record 'a client =
  client_listTools :: "js_error + (MCPTool list option)"
  client_callTool :: "string \<Rightarrow> 'a \<Rightarrow> js_error + call_tool_result option"
  client_readResource :: "string \<Rightarrow> js_error + resource_contents list"
  client_readLatency :: "string \<Rightarrow> nat"

section \<open>Embedded-resource resolver\<close>

definition rewrap :: "resource_contents \<Rightarrow> content_block" where
  "rewrap content =
     \<lparr>cb_type = ''resource'', cb_text = None, cb_mimeType = None, cb_data = None,
      cb_uri = None, cb_blob = None, cb_resource = Some content\<rparr>"

definition TypeError_uri :: js_error where
  "TypeError_uri =
     OtherError ''TypeError''
       (''Cannot read properties of undefined (reading '' @ apostrophe @ ''uri'' @ apostrophe @ '')'')"

definition embeddedResourceToArtifact ::
  "content_block \<Rightarrow> 'a client \<Rightarrow> (js_error + content_block list) \<times> 'a event list" where
  "embeddedResourceToArtifact resource client =
     (if \<not> truthy (cb_blob resource) \<and> \<not> truthy (cb_text resource) \<and> truthy (cb_uri resource)
      then
        (case cb_resource resource of
           None \<Rightarrow> (Inl TypeError_uri, [])
         | Some inner \<Rightarrow>
             (case client_readResource client (rc_uri inner) of
                Inl e \<Rightarrow> (Inl e, [ReadResource (rc_uri inner)])
              | Inr contents \<Rightarrow> (Inr (map rewrap contents), [ReadResource (rc_uri inner)])))
      else (Inr [resource], []))"

section \<open>Result converter\<close>

text \<open>The common beginning of the converter's messages.\<close>

definition error_prefix :: "string \<Rightarrow> string \<Rightarrow> string" where
  "error_prefix serverName toolName =
     ''MCP tool '' @ apostrophe @ toolName @ apostrophe @ '' on server '' @ apostrophe
     @ serverName @ apostrophe"

text \<open>The callback of the \<^verbatim>\<open>map\<close> over the text and image blocks, with its three branches.\<close>

definition classify :: "string \<Rightarrow> string \<Rightarrow> content_block \<Rightarrow> js_error + message_content_complex" where
  "classify serverName toolName content =
     (if cb_type content = ''text'' then Inr (MessageContentText (cb_text content))
      else if cb_type content = ''image'' then
        Inr (MessageContentImageUrl
               (''data:'' @ tmpl (cb_mimeType content) @ '';base64,'' @ tmpl (cb_data content)))
      else
        Inl (ToolException
               (error_prefix serverName toolName
                @ '' returned an invalid result - expected a text or image content, but was ''
                @ cb_type content)))"

text \<open>\<^verbatim>\<open>Array.prototype.map\<close> with a callback that may throw: the first throw ends it.\<close>

fun map_throwing :: "('b \<Rightarrow> js_error + 'c) \<Rightarrow> 'b list \<Rightarrow> js_error + 'c list" where
  "map_throwing f [] = Inr []"
| "map_throwing f (x # xs) =
     (case f x of
        Inl e \<Rightarrow> Inl e
      | Inr y \<Rightarrow> (case map_throwing f xs of Inl e \<Rightarrow> Inl e | Inr ys \<Rightarrow> Inr (y # ys)))"

text \<open>
  When a started call settles. A call that issued no request ran to its \<^verbatim>\<open>return\<close> or its
  \<^verbatim>\<open>throw\<close> without reaching an \<^verbatim>\<open>await\<close>: its promise is settled when the call returns, at
  time 0. A call that awaits a read settles after the read does, later than every call
  that settled at once.
\<close>

fun settle_time :: "'a client \<Rightarrow> 'a event list \<Rightarrow> nat" where
  "settle_time client [] = 0"
| "settle_time client (ReadResource uri # tr) =
     Suc (client_readLatency client uri) + settle_time client tr"
| "settle_time client (ev # tr) = settle_time client tr"

text \<open>
  The rejection that \<^verbatim>\<open>Promise.all\<close> takes: of the rejected promises the one that settled
  first, and of those that settled together the one of the earlier call.
\<close>

fun first_rejection :: "((js_error + 'b) \<times> nat) list \<Rightarrow> (js_error \<times> nat) option" where
  "first_rejection [] = None"
| "first_rejection ((Inr v, t) # ps) = first_rejection ps"
| "first_rejection ((Inl e, t) # ps) =
     (case first_rejection ps of
        None \<Rightarrow> Some (e, t)
      | Some (e', t') \<Rightarrow> (if t' < t then Some (e', t') else Some (e, t)))"

fun fulfilled :: "(js_error + 'b) list \<Rightarrow> 'b list" where
  "fulfilled [] = []"
| "fulfilled (Inr v # rs) = v # fulfilled rs"
| "fulfilled (Inl e # rs) = fulfilled rs"

text \<open>
  \<^verbatim>\<open>Promise.all\<close> over calls that were all started, in order, before any is awaited: every
  call's requests are in the trace, and the result is the list of values, or the first
  rejection in time.
\<close>

definition promise_all ::
  "('e list \<Rightarrow> nat) \<Rightarrow> ((js_error + 'b) \<times> 'e list) list \<Rightarrow> (js_error + 'b list) \<times> 'e list" where
  "promise_all settles ps =
     (case first_rejection (map (\<lambda>(r, tr). (r, settles tr)) ps) of
        Some (e, t) \<Rightarrow> (Inl e, concat (map snd ps))
      | None \<Rightarrow> (Inr (fulfilled (map fst ps)), concat (map snd ps)))"

definition normalize_content :: "message_content_complex list \<Rightarrow> message_content" where
  "normalize_content mcpTextAndImageContent =
     (case mcpTextAndImageContent of
        [MessageContentText t] \<Rightarrow> Bare t
      | _ \<Rightarrow> Fragments mcpTextAndImageContent)"

definition convertCallToolResult ::
  "string \<Rightarrow> string \<Rightarrow> call_tool_result option \<Rightarrow> 'a client \<Rightarrow>
   (js_error + message_content \<times> content_block list) \<times> 'a event list" where
  "convertCallToolResult serverName toolName result client =
     (case result of
        None \<Rightarrow>
          (Inl (ToolException
                 (error_prefix serverName toolName
                  @ '' returned an invalid result - tool call response was undefined'')), [])
      | Some r \<Rightarrow>
          (case ctr_content r of
             ContentArray content \<Rightarrow>
               (if ctr_isError r = Some True then
                  (Inl (ToolException
                         (error_prefix serverName toolName @ '' returned an error: ''
                          @ join newline (map cb_text content))), [])
                else
                  (case map_throwing (classify serverName toolName)
                          (filter (\<lambda>content. cb_type content = ''text'' \<or> cb_type content = ''image'')
                             content) of
                     Inl e \<Rightarrow> (Inl e, [])
                   | Inr mcpTextAndImageContent \<Rightarrow>
                       (case promise_all (settle_time client)
                               (map (\<lambda>content. embeddedResourceToArtifact content client)
                                  (filter (\<lambda>content. cb_type content = ''resource'') content)) of
                          (Inl e, tr) \<Rightarrow> (Inl e, tr)
                        | (Inr artifacts, tr) \<Rightarrow>
                            (Inr (normalize_content mcpTextAndImageContent, concat artifacts), tr))))
           | other \<Rightarrow>
               (Inl (ToolException
                      (error_prefix serverName toolName
                       @ '' returned an invalid result - expected an array of content, but was ''
                       @ typeof other)), [])))"

section \<open>Tool invoker\<close>

text \<open>
  The \<^verbatim>\<open>catch\<close> block of \<^verbatim>\<open>_callTool\<close>: it logs, rethrows a \<^verbatim>\<open>ToolException\<close> as it is and
  wraps anything else.
\<close>

definition callTool_catch ::
  "string \<Rightarrow> js_error \<Rightarrow> 'a event list \<Rightarrow>
   (js_error + message_content \<times> content_block list) \<times> 'a event list" where
  "callTool_catch toolName error tr =
     (if instanceof_ToolException error
      then (Inl error,
            tr @ [DebugLog (''Error calling tool '' @ toolName @ '': '' @ String_error error)])
      else (Inl (ToolException (''Error calling tool '' @ toolName @ '': '' @ String_error error)),
            tr @ [DebugLog (''Error calling tool '' @ toolName @ '': '' @ String_error error)]))"

text \<open>
  \<^verbatim>\<open>JSON.stringify\<close> of the arguments is a parameter: it returns the serialised text or
  throws (on a cyclic value, for one), inside the \<^verbatim>\<open>try\<close> block. The conversion of the
  result happens after the \<^verbatim>\<open>try\<close> block, so what it throws is not caught here.
\<close>

definition callTool ::
  "('a \<Rightarrow> js_error + string) \<Rightarrow> string \<Rightarrow> string \<Rightarrow> 'a client \<Rightarrow> 'a \<Rightarrow>
   (js_error + message_content \<times> content_block list) \<times> 'a event list" where
  "callTool JSON_stringify serverName toolName client args =
     (case JSON_stringify args of
        Inl error \<Rightarrow> callTool_catch toolName error []
      | Inr json \<Rightarrow>
          (case client_callTool client toolName args of
             Inl error \<Rightarrow>
               callTool_catch toolName error
                 [DebugLog (''INFO: Calling tool '' @ toolName @ ''('' @ json @ '')''),
                  CallTool toolName args]
           | Inr result \<Rightarrow>
               (case convertCallToolResult serverName toolName result client of
                  (r, tr) \<Rightarrow>
                    (r, [DebugLog (''INFO: Calling tool '' @ toolName @ ''('' @ json @ '')''),
                         CallTool toolName args] @ tr))))"

section \<open>Tool catalog loader\<close>

text \<open>
  Modelled from the spec: the framework's constructor of a structured tool, taking name,
  description, schema, response format and the function to invoke.
  The constructed tool. Its \<^verbatim>\<open>func\<close> is \<^verbatim>\<open>_callTool\<close> with the server name, the tool name
  and the loader's client bound; the field holds the two bound names.
\<close>

record 'z DynamicStructuredTool =
  dst_name :: "string option"
  dst_description :: string
  dst_schema :: 'z
  dst_responseFormat :: string
  dst_func :: "string \<times> string option"

definition empty_object_schema :: json where
  "empty_object_schema = JObj [(''type'', JStr ''object''), (''properties'', JObj [])]"

text \<open>\<^verbatim>\<open>String(n)\<close> of a length.\<close>

fun String_nat :: "nat \<Rightarrow> string" where
  "String_nat n =
     (if n < 10 then [char_of (48 + n)]
      else String_nat (n div 10) @ [char_of (48 + n mod 10)])"

declare String_nat.simps [simp del]

definition double_quote :: string where
  "double_quote = [CHR 0x22]"

text \<open>\<^verbatim>\<open>tool.inputSchema ?? {type: "object", properties: {}}\<close>: absent and \<^verbatim>\<open>null\<close> give the default.\<close>

definition input_schema :: "MCPTool \<Rightarrow> json" where
  "input_schema tool =
     (case tool_inputSchema tool of
        None \<Rightarrow> empty_object_schema
      | Some JNull \<Rightarrow> empty_object_schema
      | Some s \<Rightarrow> s)"

definition new_DynamicStructuredTool :: "string \<Rightarrow> MCPTool \<Rightarrow> 'z \<Rightarrow> 'z DynamicStructuredTool" where
  "new_DynamicStructuredTool serverName tool schema =
     \<lparr>dst_name = tool_name tool,
      dst_description = (case tool_description tool of None \<Rightarrow> [] | Some d \<Rightarrow> d),
      dst_schema = schema,
      dst_responseFormat = ''content_and_artifact'',
      dst_func = (serverName, tool_name tool)\<rparr>"

text \<open>
  The body of the \<^verbatim>\<open>try\<close> block up to the constructed tool. The schema conversion
  \<^verbatim>\<open>JSONSchemaToZod.convert\<close> is a parameter: it returns the converted schema or throws.
\<close>

definition construct_tool ::
  "(json \<Rightarrow> js_error + 'z) \<Rightarrow> string \<Rightarrow> MCPTool \<Rightarrow> js_error + 'z DynamicStructuredTool" where
  "construct_tool JSONSchemaToZod_convert serverName tool =
     (case JSONSchemaToZod_convert (input_schema tool) of
        Inl error \<Rightarrow> Inl error
      | Inr schema \<Rightarrow> Inr (new_DynamicStructuredTool serverName tool schema))"

text \<open>The callback of the \<^verbatim>\<open>map\<close> over the named tools.\<close>

definition load_tool ::
  "(json \<Rightarrow> js_error + 'z) \<Rightarrow> string \<Rightarrow> bool \<Rightarrow> MCPTool \<Rightarrow>
   (js_error + 'z DynamicStructuredTool option) \<times> 'a event list" where
  "load_tool JSONSchemaToZod_convert serverName throwOnLoadError tool =
     (case construct_tool JSONSchemaToZod_convert serverName tool of
        Inr dst \<Rightarrow>
          (Inr (Some dst),
           [DebugLog (''INFO: Successfully loaded tool: '' @ tmpl (dst_name dst))])
      | Inl error \<Rightarrow>
          (if throwOnLoadError then Inl error else Inr None,
           [DebugLogError
              (''ERROR: Failed to load tool '' @ double_quote @ tmpl (tool_name tool)
               @ double_quote @ '':'') error]))"

text \<open>\<^verbatim>\<open>Array.prototype.map\<close> with a callback that logs and may throw.\<close>

fun map_logging ::
  "('b \<Rightarrow> (js_error + 'c) \<times> 'e list) \<Rightarrow> 'b list \<Rightarrow> (js_error + 'c list) \<times> 'e list" where
  "map_logging f [] = (Inr [], [])"
| "map_logging f (x # xs) =
     (case f x of
        (Inl e, t) \<Rightarrow> (Inl e, t)
      | (Inr y, t) \<Rightarrow>
          (case map_logging f xs of
             (Inl e, ts) \<Rightarrow> (Inl e, t @ ts)
           | (Inr ys, ts) \<Rightarrow> (Inr (y # ys), t @ ts)))"

text \<open>\<^verbatim>\<open>filter(Boolean)\<close> over the constructed tools and the \<^verbatim>\<open>null\<close>s.\<close>

fun filter_Boolean :: "'c option list \<Rightarrow> 'c list" where
  "filter_Boolean [] = []"
| "filter_Boolean (None # xs) = filter_Boolean xs"
| "filter_Boolean (Some x # xs) = x # filter_Boolean xs"

definition loadMcpTools ::
  "(json \<Rightarrow> js_error + 'z) \<Rightarrow> string \<Rightarrow> 'a client \<Rightarrow> bool \<Rightarrow>
   (js_error + 'z DynamicStructuredTool list) \<times> 'a event list" where
  "loadMcpTools JSONSchemaToZod_convert serverName client throwOnLoadError =
     (case client_listTools client of
        Inl e \<Rightarrow> (Inl e, [ListTools])
      | Inr toolsResponse \<Rightarrow>
          (case map_logging (load_tool JSONSchemaToZod_convert serverName throwOnLoadError)
                  (filter (\<lambda>tool. truthy (tool_name tool))
                     (case toolsResponse of None \<Rightarrow> [] | Some tools \<Rightarrow> tools)) of
             (Inl e, tr) \<Rightarrow>
               (Inl e,
                [ListTools,
                 DebugLog (''INFO: Found ''
                           @ String_nat (case toolsResponse of None \<Rightarrow> 0 | Some tools \<Rightarrow> length tools)
                           @ '' MCP tools'')] @ tr)
           | (Inr loaded, tr) \<Rightarrow>
               (Inr (filter_Boolean loaded),
                [ListTools,
                 DebugLog (''INFO: Found ''
                           @ String_nat (case toolsResponse of None \<Rightarrow> 0 | Some tools \<Rightarrow> length tools)
                           @ '' MCP tools'')] @ tr)))"

section \<open>Example inputs\<close>

definition text_block :: "string \<Rightarrow> content_block" where
  "text_block t =
     \<lparr>cb_type = ''text'', cb_text = Some t, cb_mimeType = None, cb_data = None,
      cb_uri = None, cb_blob = None, cb_resource = None\<rparr>"

definition image_block :: "string \<Rightarrow> string \<Rightarrow> content_block" where
  "image_block m d =
     \<lparr>cb_type = ''image'', cb_text = None, cb_mimeType = Some m, cb_data = Some d,
      cb_uri = None, cb_blob = None, cb_resource = None\<rparr>"

definition ok_result :: "content_block list \<Rightarrow> call_tool_result" where
  "ok_result content = \<lparr>ctr_content = ContentArray content, ctr_isError = Some False\<rparr>"

definition error_result :: "content_block list \<Rightarrow> call_tool_result" where
  "error_result content = \<lparr>ctr_content = ContentArray content, ctr_isError = Some True\<rparr>"

definition ex_client :: "unit client" where
  "ex_client =
     \<lparr>client_listTools = Inr None,
      client_callTool = (\<lambda>n a. Inr (Some (ok_result [text_block ''5'']))),
      client_readResource =
        (\<lambda>u. Inr [\<lparr>rc_uri = u, rc_mimeType = None, rc_text = Some ''part one'', rc_blob = None\<rparr>,
                  \<lparr>rc_uri = u, rc_mimeType = None, rc_text = Some ''part two'', rc_blob = None\<rparr>]),
      client_readLatency = (\<lambda>u. 0)\<rparr>"

definition stringify_unit :: "unit \<Rightarrow> js_error + string" where
  "stringify_unit args = Inr ''{}''"


definition reference_resource :: content_block where
  "reference_resource =
     \<lparr>cb_type = ''resource'', cb_text = None, cb_mimeType = None, cb_data = None,
      cb_uri = Some ''file:///a'', cb_blob = None,
      cb_resource = Some \<lparr>rc_uri = ''file:///a'', rc_mimeType = None, rc_text = None, rc_blob = None\<rparr>\<rparr>"

definition orphan_reference :: content_block where
  "orphan_reference =
     \<lparr>cb_type = ''resource'', cb_text = None, cb_mimeType = None, cb_data = None,
      cb_uri = Some ''file:///b'', cb_blob = None, cb_resource = None\<rparr>"


definition audio_block :: content_block where
  "audio_block =
     \<lparr>cb_type = ''audio'', cb_text = None, cb_mimeType = Some ''audio/wav'', cb_data = Some ''UklGRg=='',
      cb_uri = None, cb_blob = None, cb_resource = None\<rparr>"

definition bad_schema :: json where
  "bad_schema = JObj [(''type'', JNum 7)]"

definition ex_convert :: "json \<Rightarrow> js_error + json" where
  "ex_convert schema =
     (if schema = bad_schema then Inl (OtherError ''Error'' ''Unsupported schema'') else Inr schema)"

definition add_tool :: MCPTool where
  "add_tool = \<lparr>tool_name = Some ''add'', tool_description = Some ''Adds two numbers'',
                tool_inputSchema = None\<rparr>"

definition broken_tool :: MCPTool where
  "broken_tool = \<lparr>tool_name = Some ''broken'', tool_description = None,
                   tool_inputSchema = Some bad_schema\<rparr>"

definition search_tool :: MCPTool where
  "search_tool = \<lparr>tool_name = Some ''search'', tool_description = None,
                   tool_inputSchema = Some (JObj [(''type'', JStr ''object'')])\<rparr>"

definition unnamed_tool :: MCPTool where
  "unnamed_tool = \<lparr>tool_name = Some [], tool_description = Some ''no name'',
                    tool_inputSchema = Some bad_schema\<rparr>"

section \<open>Properties of the result converter\<close>

lemma classify_filtered:
  "map_throwing (classify s t) (filter (\<lambda>c. cb_type c = ''text'' \<or> cb_type c = ''image'') content)
   = Inr (map (\<lambda>c. if cb_type c = ''text'' then MessageContentText (cb_text c)
              else MessageContentImageUrl (''data:'' @ tmpl (cb_mimeType c) @ '';base64,'' @ tmpl (cb_data c)))
            (filter (\<lambda>c. cb_type c = ''text'' \<or> cb_type c = ''image'') content))"
  by (induction content) (auto simp: classify_def)

lemma first_rejection_None:
  "(\<forall>p \<in> set ps. \<exists>v. fst p = Inr v) \<Longrightarrow> first_rejection ps = None"
  by (induction ps rule: first_rejection.induct) auto

lemma first_rejection_Some:
  "first_rejection ps = Some (e, t) \<Longrightarrow> (Inl e, t) \<in> set ps"
  by (induction ps arbitrary: e t rule: first_rejection.induct)
     (auto split: option.splits if_splits)

lemma first_rejection_exists:
  "(Inl e, t) \<in> set ps \<Longrightarrow> \<exists>e' t'. first_rejection ps = Some (e', t')"
  by (induction ps rule: first_rejection.induct) (auto split: option.splits)

lemma promise_all_Nil [simp]: "promise_all settles [] = (Inr [], [])"
  by (simp add: promise_all_def)

lemma promise_all_trace: "snd (promise_all settles ps) = concat (map snd ps)"
  by (simp add: promise_all_def split: option.splits)

lemma promise_all_Inr:
  "(\<forall>p\<in>set ps. \<exists>v. fst p = Inr v) \<Longrightarrow> \<exists>vs. fst (promise_all settles ps) = Inr vs"
proof -
  assume a: "\<forall>p\<in>set ps. \<exists>v. fst p = Inr v"
  have "\<forall>p \<in> set (map (\<lambda>(r, tr). (r, settles tr)) ps). \<exists>v. fst p = Inr v"
    using a by (auto simp: case_prod_beta)
  then have "first_rejection (map (\<lambda>(r, tr). (r, settles tr)) ps) = None"
    by (rule first_rejection_None)
  then show ?thesis by (simp add: promise_all_def)
qed

lemma promise_all_Inl:
  "fst (promise_all settles ps) = Inl e \<Longrightarrow> \<exists>p \<in> set ps. fst p = Inl e"
proof -
  assume a: "fst (promise_all settles ps) = Inl e"
  then obtain t where "first_rejection (map (\<lambda>(r, tr). (r, settles tr)) ps) = Some (e, t)"
    by (auto simp: promise_all_def split: option.splits)
  then have "(Inl e, t) \<in> set (map (\<lambda>(r, tr). (r, settles tr)) ps)"
    by (rule first_rejection_Some)
  then show ?thesis by (force simp: case_prod_beta)
qed

lemma promise_all_rejects:
  assumes "p \<in> set ps" and "fst p = Inl e"
  shows "\<exists>p' \<in> set ps. \<exists>e'. fst p' = Inl e' \<and> fst (promise_all settles ps) = Inl e'"
proof -
  from assms have "(Inl e, settles (snd p)) \<in> set (map (\<lambda>(r, tr). (r, settles tr)) ps)"
    by (force simp: case_prod_beta)
  then obtain e' t' where f: "first_rejection (map (\<lambda>(r, tr). (r, settles tr)) ps) = Some (e', t')"
    using first_rejection_exists by blast
  then have r: "fst (promise_all settles ps) = Inl e'"
    by (simp add: promise_all_def)
  from promise_all_Inl [OF r] r show ?thesis by blast
qed

text \<open>
  A block that throws before its first \<^verbatim>\<open>await\<close> rejects before a read that fails, also when
  it comes later in the content; of two such blocks, and of two reads that fail at the
  same time, the earlier one decides.
\<close>

lemma promise_all_immediate_rejection_first:
  "fst (promise_all (settle_time client)
          [(Inl e1, [ReadResource uri]), (Inl e2, [])]) = Inl e2"
  "fst (promise_all (settle_time client) [(Inl e1, []), (Inl e2, [])]) = Inl e1"
  "fst (promise_all (settle_time client)
          [(Inl e1, [ReadResource uri]), (Inl e2, [ReadResource uri])]) = Inl e1"
  by (simp_all add: promise_all_def)

lemma convert_TypeError_before_read_error:
  "fst (convertCallToolResult ''srv'' ''add''
          (Some (ok_result [reference_resource, orphan_reference]))
          (ex_client\<lparr>client_readResource :=
                       \<lambda>uri. Inl (OtherError ''McpError'' ''Resource not found'')\<rparr>))
   = Inl TypeError_uri"
  by (simp add: convertCallToolResult_def ok_result_def reference_resource_def
        orphan_reference_def embeddedResourceToArtifact_def promise_all_def)

lemma normalize_content_single_text: "normalize_content [MessageContentText t] = Bare t"
  by (simp add: normalize_content_def)

lemma normalize_content_other:
  "(\<nexists>t. frags = [MessageContentText t]) \<Longrightarrow> normalize_content frags = Fragments frags"
  by (auto simp: normalize_content_def split: list.splits message_content_complex.splits)

lemma convert_ok_unfold:
  assumes "ctr_content r = ContentArray content" and "ctr_isError r \<noteq> Some True"
    and "map_throwing (classify serverName toolName)
           (filter (\<lambda>c. cb_type c = ''text'' \<or> cb_type c = ''image'') content) = Inr frags"
  shows "convertCallToolResult serverName toolName (Some r) client =
     (case promise_all (settle_time client) (map (\<lambda>c. embeddedResourceToArtifact c client)
                           (filter (\<lambda>c. cb_type c = ''resource'') content)) of
        (Inl e, tr) \<Rightarrow> (Inl e, tr)
      | (Inr artifacts, tr) \<Rightarrow> (Inr (normalize_content frags, concat artifacts), tr))"
  using assms by (simp add: convertCallToolResult_def)

text \<open>
  Claim C1. For a result whose content is an array and whose \<^verbatim>\<open>isError\<close> is not set, let
  \<open>frags\<close> be the classified text and image fragments. If \<open>frags\<close> is a single text
  fragment, the primary content the converter returns is that fragment's bare text; in
  every other case (no fragment, several, or a single image fragment) it is the whole
  fragment sequence \<open>frags\<close>. The converter does return whenever every resource block
  resolves.
\<close>

theorem normalization_rule:
  assumes "ctr_content r = ContentArray content" and "ctr_isError r \<noteq> Some True"
    and "map_throwing (classify serverName toolName)
           (filter (\<lambda>c. cb_type c = ''text'' \<or> cb_type c = ''image'') content) = Inr frags"
  shows "(\<forall>t. frags = [MessageContentText t] \<longrightarrow>
            (\<forall>p a. fst (convertCallToolResult serverName toolName (Some r) client) = Inr (p, a)
                   \<longrightarrow> p = Bare t))
       \<and> ((\<nexists>t. frags = [MessageContentText t]) \<longrightarrow>
            (\<forall>p a. fst (convertCallToolResult serverName toolName (Some r) client) = Inr (p, a)
                   \<longrightarrow> p = Fragments frags))
       \<and> ((\<forall>c \<in> set content. cb_type c = ''resource'' \<longrightarrow>
               (\<exists>v. fst (embeddedResourceToArtifact c client) = Inr v)) \<longrightarrow>
            (\<exists>p a. fst (convertCallToolResult serverName toolName (Some r) client)
                   = Inr (p, a)))"
proof -
  let ?ps = "map (\<lambda>c. embeddedResourceToArtifact c client)
               (filter (\<lambda>c. cb_type c = ''resource'') content)"
  note unf = convert_ok_unfold [OF assms, of client]
  have prim: "p = normalize_content frags"
    if "fst (convertCallToolResult serverName toolName (Some r) client) = Inr (p, a)" for p a
    using that unfolding unf by (auto split: prod.splits sum.splits)
  have ret: "\<exists>p a. fst (convertCallToolResult serverName toolName (Some r) client) = Inr (p, a)"
    if "\<forall>c \<in> set content. cb_type c = ''resource'' \<longrightarrow>
               (\<exists>v. fst (embeddedResourceToArtifact c client) = Inr v)"
  proof -
    have "\<forall>p \<in> set ?ps. \<exists>v. fst p = Inr v" using that by auto
    then obtain vs where "fst (promise_all (settle_time client) ?ps) = Inr vs"
      using promise_all_Inr by blast
    then show ?thesis unfolding unf by (auto split: prod.splits sum.splits)
  qed
  show ?thesis
    using prim ret normalize_content_single_text normalize_content_other [of frags] by metis
qed

theorem normalization_rule_witness:
  "ctr_content (ok_result [text_block ''5'']) = ContentArray [text_block ''5'']
   \<and> ctr_isError (ok_result [text_block ''5'']) \<noteq> Some True
   \<and> map_throwing (classify ''srv'' ''add'')
        (filter (\<lambda>c. cb_type c = ''text'' \<or> cb_type c = ''image'') [text_block ''5''])
      = Inr [MessageContentText (Some ''5'')]
   \<and> fst (convertCallToolResult ''srv'' ''add'' (Some (ok_result [text_block ''5''])) ex_client)
      = Inr (Bare (Some ''5''), [])"
proof -
  have h1: "ctr_content (ok_result [text_block ''5'']) = ContentArray [text_block ''5'']"
    by (simp add: ok_result_def)
  have h2: "ctr_isError (ok_result [text_block ''5'']) \<noteq> Some True"
    by (simp add: ok_result_def)
  have h3: "map_throwing (classify ''srv'' ''add'')
        (filter (\<lambda>c. cb_type c = ''text'' \<or> cb_type c = ''image'') [text_block ''5''])
      = Inr [MessageContentText (Some ''5'')]"
    by (simp add: classify_def text_block_def)
  have h4: "\<forall>c \<in> set [text_block ''5'']. cb_type c = ''resource'' \<longrightarrow>
               (\<exists>v. fst (embeddedResourceToArtifact c ex_client) = Inr v)"
    by (simp add: text_block_def)
  from normalization_rule [OF h1 h2 h3, of ex_client] h4
  obtain p a where pa: "fst (convertCallToolResult ''srv'' ''add''
       (Some (ok_result [text_block ''5''])) ex_client) = Inr (p, a)"
      and p: "p = Bare (Some ''5'')"
    by blast
  have "a = []"
    using pa by (simp add: convertCallToolResult_def ok_result_def text_block_def classify_def)
  with pa p h1 h2 h3 show ?thesis by simp
qed

text \<open>
  Claim C2, as stated, at an error result with no content block: the message is not empty,
  it is the converter's fixed beginning naming the tool and the server.
\<close>

theorem upstream_error_empty_counterexample:
  "fst (convertCallToolResult ''srv'' ''add'' (Some (error_result [])) ex_client)
     = Inl (ToolException (''MCP tool '' @ apostrophe @ ''add'' @ apostrophe @ '' on server ''
                           @ apostrophe @ ''srv'' @ apostrophe @ '' returned an error: ''))
   \<and> fst (convertCallToolResult ''srv'' ''add'' (Some (error_result [])) ex_client)
     \<noteq> Inl (ToolException [])"
  by (simp add: convertCallToolResult_def error_result_def error_prefix_def)

text \<open>
  Claim C2, amended. For a result whose content is an array and whose \<^verbatim>\<open>isError\<close> is
  true, the conversion fails with a \<^verbatim>\<open>ToolException\<close> and issues no request; its message is
  "MCP tool '<tool>' on server '<server>' returned an error: " followed by the \<^verbatim>\<open>text\<close>
  properties of all blocks, in order, joined by newlines, where a block without \<^verbatim>\<open>text\<close>
  stands for the empty string. No block is validated. With no block the message is the
  fixed beginning alone.
\<close>

theorem upstream_error_message:
  assumes "ctr_content r = ContentArray content" and "ctr_isError r = Some True"
  shows "convertCallToolResult serverName toolName (Some r) client =
           (Inl (ToolException
                  (''MCP tool '' @ apostrophe @ toolName @ apostrophe @ '' on server ''
                   @ apostrophe @ serverName @ apostrophe @ '' returned an error: ''
                   @ join newline (map cb_text content))), [])
       \<and> (content = [] \<longrightarrow>
            fst (convertCallToolResult serverName toolName (Some r) client) =
              Inl (ToolException
                    (''MCP tool '' @ apostrophe @ toolName @ apostrophe @ '' on server ''
                     @ apostrophe @ serverName @ apostrophe @ '' returned an error: '')))"
  using assms by (simp add: convertCallToolResult_def error_prefix_def)

theorem upstream_error_message_witness:
  "ctr_content (error_result [image_block ''image/png'' ''QQ=='', text_block ''boom''])
     = ContentArray [image_block ''image/png'' ''QQ=='', text_block ''boom'']
   \<and> ctr_isError (error_result [image_block ''image/png'' ''QQ=='', text_block ''boom'']) = Some True
   \<and> convertCallToolResult ''srv'' ''add''
        (Some (error_result [image_block ''image/png'' ''QQ=='', text_block ''boom''])) ex_client
     = (Inl (ToolException
              (''MCP tool '' @ apostrophe @ ''add'' @ apostrophe @ '' on server ''
               @ apostrophe @ ''srv'' @ apostrophe @ '' returned an error: ''
               @ newline @ ''boom'')), [])"
proof -
  have h1: "ctr_content (error_result [image_block ''image/png'' ''QQ=='', text_block ''boom''])
     = ContentArray [image_block ''image/png'' ''QQ=='', text_block ''boom'']"
    by (simp add: error_result_def)
  have h2: "ctr_isError (error_result [image_block ''image/png'' ''QQ=='', text_block ''boom'']) = Some True"
    by (simp add: error_result_def)
  from upstream_error_message [OF h1 h2, where toolName = "''add''" and serverName = "''srv''"
         and client = ex_client] h1 h2
  show ?thesis by (simp add: image_block_def text_block_def)
qed

section \<open>Properties of the embedded-resource resolver\<close>




section \<open>Validation order, classification and unrecognized kinds\<close>

text \<open>
  Claim C6. The checks run in this order, and the first that fails decides: a missing
  result fails with the message that the tool call response was undefined; otherwise a
  content that is not an array fails with the message naming \<^verbatim>\<open>typeof content\<close>, whatever
  \<^verbatim>\<open>isError\<close> is; and a result with an array as content and \<^verbatim>\<open>isError\<close> true fails with the
  tool's own error text. None of the three issues a request.
\<close>

theorem validation_order:
  "convertCallToolResult serverName toolName None client =
     (Inl (ToolException
            (''MCP tool '' @ apostrophe @ toolName @ apostrophe @ '' on server '' @ apostrophe
             @ serverName @ apostrophe
             @ '' returned an invalid result - tool call response was undefined'')), [])
   \<and> ((\<forall>bs. ctr_content r \<noteq> ContentArray bs) \<longrightarrow>
        convertCallToolResult serverName toolName (Some r) client =
          (Inl (ToolException
                 (''MCP tool '' @ apostrophe @ toolName @ apostrophe @ '' on server '' @ apostrophe
                  @ serverName @ apostrophe
                  @ '' returned an invalid result - expected an array of content, but was ''
                  @ typeof (ctr_content r))), []))
   \<and> (\<forall>bs. ctr_content r = ContentArray bs \<and> ctr_isError r = Some True \<longrightarrow>
        convertCallToolResult serverName toolName (Some r) client =
          (Inl (ToolException
                 (''MCP tool '' @ apostrophe @ toolName @ apostrophe @ '' on server '' @ apostrophe
                  @ serverName @ apostrophe @ '' returned an error: ''
                  @ join newline (map cb_text bs))), []))"
  by (cases "ctr_content r") (simp_all add: convertCallToolResult_def error_prefix_def)

theorem validation_order_witness:
  "convertCallToolResult ''srv'' ''add''
      (Some \<lparr>ctr_content = ContentString ''oops'', ctr_isError = Some True\<rparr>) ex_client =
     (Inl (ToolException
            (''MCP tool '' @ apostrophe @ ''add'' @ apostrophe @ '' on server '' @ apostrophe
             @ ''srv'' @ apostrophe
             @ '' returned an invalid result - expected an array of content, but was string'')), [])
   \<and> convertCallToolResult ''srv'' ''add'' (Some (error_result [text_block ''boom''])) ex_client =
     (Inl (ToolException
            (''MCP tool '' @ apostrophe @ ''add'' @ apostrophe @ '' on server '' @ apostrophe
             @ ''srv'' @ apostrophe @ '' returned an error: boom'')), [])"
proof -
  have a: "\<forall>bs. ctr_content \<lparr>ctr_content = ContentString ''oops'', ctr_isError = Some True\<rparr>
             \<noteq> ContentArray bs"
    by simp
  have b: "ctr_content (error_result [text_block ''boom'']) = ContentArray [text_block ''boom'']
           \<and> ctr_isError (error_result [text_block ''boom'']) = Some True"
    by (simp add: error_result_def)
  from validation_order [where r = "\<lparr>ctr_content = ContentString ''oops'', ctr_isError = Some True\<rparr>"
         and serverName = "''srv''" and toolName = "''add''" and client = ex_client] a
  have 1: "convertCallToolResult ''srv'' ''add''
      (Some \<lparr>ctr_content = ContentString ''oops'', ctr_isError = Some True\<rparr>) ex_client =
     (Inl (ToolException
            (''MCP tool '' @ apostrophe @ ''add'' @ apostrophe @ '' on server '' @ apostrophe
             @ ''srv'' @ apostrophe
             @ '' returned an invalid result - expected an array of content, but was string'')), [])"
    by simp
  from validation_order [where r = "error_result [text_block ''boom'']"
         and serverName = "''srv''" and toolName = "''add''" and client = ex_client] b
  have 2: "convertCallToolResult ''srv'' ''add'' (Some (error_result [text_block ''boom''])) ex_client =
     (Inl (ToolException
            (''MCP tool '' @ apostrophe @ ''add'' @ apostrophe @ '' on server '' @ apostrophe
             @ ''srv'' @ apostrophe @ '' returned an error: boom'')), [])"
    by (simp add: text_block_def)
  from 1 2 show ?thesis by simp
qed

text \<open>
  Claim C8. A text block is classified as the text fragment with the block's text as it is;
  an image block as the image-url fragment whose url is "data:", the mime type,
  ";base64," and the data, whatever the data is. A result holding one such image block
  is converted to the sequence of that one fragment.
\<close>

theorem classifier_fragments:
  "(cb_type content = ''text'' \<longrightarrow>
      classify serverName toolName content = Inr (MessageContentText (cb_text content)))
   \<and> (cb_type content = ''image'' \<and> cb_mimeType content = Some mimeType \<and> cb_data content = Some data
        \<longrightarrow>
        classify serverName toolName content
          = Inr (MessageContentImageUrl (''data:'' @ mimeType @ '';base64,'' @ data))
        \<and> convertCallToolResult serverName toolName (Some (ok_result [content])) client
          = (Inr (Fragments [MessageContentImageUrl (''data:'' @ mimeType @ '';base64,'' @ data)], []),
             []))"
  by (simp add: classify_def convertCallToolResult_def ok_result_def normalize_content_def)

theorem classifier_fragments_witness:
  "classify ''srv'' ''add'' (text_block ''5'') = Inr (MessageContentText (Some ''5''))
   \<and> classify ''srv'' ''add'' (image_block ''image/png'' ''QQ=='')
       = Inr (MessageContentImageUrl ''data:image/png;base64,QQ=='')
   \<and> convertCallToolResult ''srv'' ''add'' (Some (ok_result [image_block ''image/png'' ''QQ==''])) ex_client
       = (Inr (Fragments [MessageContentImageUrl ''data:image/png;base64,QQ==''], []), [])"
proof -
  have a: "cb_type (text_block ''5'') = ''text''" by (simp add: text_block_def)
  have b: "cb_type (image_block ''image/png'' ''QQ=='') = ''image''
      \<and> cb_mimeType (image_block ''image/png'' ''QQ=='') = Some ''image/png''
      \<and> cb_data (image_block ''image/png'' ''QQ=='') = Some ''QQ==''"
    by (simp add: image_block_def)
  from classifier_fragments [where content = "text_block ''5''" and serverName = "''srv''"
         and toolName = "''add''"] a
  have 1: "classify ''srv'' ''add'' (text_block ''5'') = Inr (MessageContentText (Some ''5''))"
    by (simp add: text_block_def)
  from classifier_fragments [where content = "image_block ''image/png'' ''QQ==''"
         and serverName = "''srv''" and toolName = "''add''" and mimeType = "''image/png''"
         and data = "''QQ==''" and client = ex_client] b
  have 2: "classify ''srv'' ''add'' (image_block ''image/png'' ''QQ=='')
       = Inr (MessageContentImageUrl ''data:image/png;base64,QQ=='')
   \<and> convertCallToolResult ''srv'' ''add'' (Some (ok_result [image_block ''image/png'' ''QQ==''])) ex_client
       = (Inr (Fragments [MessageContentImageUrl ''data:image/png;base64,QQ==''], []), [])"
    by simp
  from 1 2 show ?thesis by simp
qed

lemma filter_recognized_text_image:
  "filter (\<lambda>c. cb_type c = ''text'' \<or> cb_type c = ''image'')
     (filter (\<lambda>c. cb_type c = ''text'' \<or> cb_type c = ''image'' \<or> cb_type c = ''resource'') content)
   = filter (\<lambda>c. cb_type c = ''text'' \<or> cb_type c = ''image'') content"
  by (induction content) auto

lemma filter_recognized_resource:
  "filter (\<lambda>c. cb_type c = ''resource'')
     (filter (\<lambda>c. cb_type c = ''text'' \<or> cb_type c = ''image'' \<or> cb_type c = ''resource'') content)
   = filter (\<lambda>c. cb_type c = ''resource'') content"
  by (induction content) auto

text \<open>
  Claim C10. For a result whose content is an array and whose \<^verbatim>\<open>isError\<close> is not set, the
  blocks whose kind is none of text, image and resource do not matter: the converter
  returns the same result and issues the same requests as on the content without them.
  The classifier is applied to text and image blocks only, so it never takes its error
  branch there, and what the converter returns is either a value or the error of a
  resource block's resolution.
\<close>

theorem unrecognized_blocks_dropped:
  assumes "ctr_content r = ContentArray content" and "ctr_isError r \<noteq> Some True"
  shows "convertCallToolResult serverName toolName (Some r) client =
         convertCallToolResult serverName toolName
           (Some (r\<lparr>ctr_content :=
                     ContentArray
                       (filter (\<lambda>c. cb_type c = ''text'' \<or> cb_type c = ''image''
                                     \<or> cb_type c = ''resource'') content)\<rparr>)) client
       \<and> (\<forall>e. map_throwing (classify serverName toolName)
                 (filter (\<lambda>c. cb_type c = ''text'' \<or> cb_type c = ''image'') content) \<noteq> Inl e)
       \<and> (\<forall>e. fst (convertCallToolResult serverName toolName (Some r) client) = Inl e \<longrightarrow>
              (\<exists>c \<in> set content. cb_type c = ''resource''
                  \<and> fst (embeddedResourceToArtifact c client) = Inl e))"
proof -
  have cl: "\<forall>e. map_throwing (classify serverName toolName)
                 (filter (\<lambda>c. cb_type c = ''text'' \<or> cb_type c = ''image'') content) \<noteq> Inl e"
    by (simp add: classify_filtered)
  let ?keep = "filter (\<lambda>c. cb_type c = ''text'' \<or> cb_type c = ''image''
                                     \<or> cb_type c = ''resource'') content"
  let ?r' = "r\<lparr>ctr_content := ContentArray ?keep\<rparr>"
  have r1: "ctr_content ?r' = ContentArray ?keep" by simp
  have r2: "ctr_isError ?r' \<noteq> Some True" using assms(2) by simp
  have eq: "convertCallToolResult serverName toolName (Some r) client =
         convertCallToolResult serverName toolName (Some ?r') client"
    unfolding convert_ok_unfold [OF assms classify_filtered]
      convert_ok_unfold [OF r1 r2 classify_filtered]
      filter_recognized_text_image filter_recognized_resource
    by (rule refl)
  have err: "\<exists>c \<in> set content. cb_type c = ''resource''
                  \<and> fst (embeddedResourceToArtifact c client) = Inl e"
    if "fst (convertCallToolResult serverName toolName (Some r) client) = Inl e" for e
  proof -
    from that have "fst (promise_all (settle_time client) (map (\<lambda>c. embeddedResourceToArtifact c client)
                           (filter (\<lambda>c. cb_type c = ''resource'') content))) = Inl e"
      unfolding convert_ok_unfold [OF assms classify_filtered]
      by (auto split: prod.splits sum.splits)
    then obtain p where "p \<in> set (map (\<lambda>c. embeddedResourceToArtifact c client)
                           (filter (\<lambda>c. cb_type c = ''resource'') content))" "fst p = Inl e"
      using promise_all_Inl by blast
    then show ?thesis by auto
  qed
  from cl eq err show ?thesis by blast
qed

theorem unrecognized_blocks_dropped_witness:
  "ctr_content (ok_result [audio_block, text_block ''5''])
     = ContentArray [audio_block, text_block ''5'']
   \<and> ctr_isError (ok_result [audio_block, text_block ''5'']) \<noteq> Some True
   \<and> convertCallToolResult ''srv'' ''add'' (Some (ok_result [audio_block, text_block ''5''])) ex_client
     = (Inr (Bare (Some ''5''), []), [])"
proof -
  have h1: "ctr_content (ok_result [audio_block, text_block ''5''])
     = ContentArray [audio_block, text_block ''5'']"
    by (simp add: ok_result_def)
  have h2: "ctr_isError (ok_result [audio_block, text_block ''5'']) \<noteq> Some True"
    by (simp add: ok_result_def)
  from unrecognized_blocks_dropped [OF h1 h2, where serverName = "''srv''"
         and toolName = "''add''" and client = ex_client]
  have "convertCallToolResult ''srv'' ''add'' (Some (ok_result [audio_block, text_block ''5''])) ex_client
      = convertCallToolResult ''srv'' ''add'' (Some (ok_result [text_block ''5''])) ex_client"
    by (simp add: ok_result_def audio_block_def text_block_def)
  also have "\<dots> = (Inr (Bare (Some ''5''), []), [])"
    by (simp add: convertCallToolResult_def ok_result_def text_block_def classify_def
          normalize_content_def)
  finally show ?thesis using h1 h2 by simp
qed

section \<open>Properties of the tool invoker\<close>

lemma resolver_error:
  "fst (embeddedResourceToArtifact c client) = Inl e \<Longrightarrow>
     e = TypeError_uri \<or> (\<exists>uri. client_readResource client uri = Inl e)"
  by (auto simp: embeddedResourceToArtifact_def split: if_splits option.splits sum.splits)

lemma convert_error:
  assumes "fst (convertCallToolResult serverName toolName result client) = Inl e"
  shows "instanceof_ToolException e
         \<or> (\<exists>c. fst (embeddedResourceToArtifact c client) = Inl e)"
proof (cases result)
  case None
  with assms show ?thesis by (auto simp: convertCallToolResult_def)
next
  case (Some r)
  show ?thesis
  proof (cases "\<exists>content. ctr_content r = ContentArray content \<and> ctr_isError r \<noteq> Some True")
    case True
    then obtain content where c: "ctr_content r = ContentArray content" "ctr_isError r \<noteq> Some True"
      by blast
    from assms have "fst (promise_all (settle_time client) (map (\<lambda>c. embeddedResourceToArtifact c client)
                           (filter (\<lambda>c. cb_type c = ''resource'') content))) = Inl e"
      unfolding Some convert_ok_unfold [OF c classify_filtered]
      by (auto split: prod.splits sum.splits)
    then obtain p where "p \<in> set (map (\<lambda>c. embeddedResourceToArtifact c client)
                           (filter (\<lambda>c. cb_type c = ''resource'') content))" "fst p = Inl e"
      using promise_all_Inl by blast
    then show ?thesis by auto
  next
    case False
    with assms Some show ?thesis
      by (cases "ctr_content r") (auto simp: convertCallToolResult_def)
  qed
qed



text \<open>
  Claim C7, as stated, at an error result and at a missing result: the upstream-tool error
  and the invalid-result error are instances of the same class with the same name; they
  differ in the message only.
\<close>

theorem error_kinds_same_type_counterexample:
  "fst (convertCallToolResult ''srv'' ''add'' (Some (error_result [text_block ''boom''])) ex_client)
     = Inl (ToolException (''MCP tool '' @ apostrophe @ ''add'' @ apostrophe @ '' on server ''
                           @ apostrophe @ ''srv'' @ apostrophe @ '' returned an error: boom''))
   \<and> fst (convertCallToolResult ''srv'' ''add'' None ex_client)
     = Inl (ToolException (''MCP tool '' @ apostrophe @ ''add'' @ apostrophe @ '' on server ''
                           @ apostrophe @ ''srv'' @ apostrophe
                           @ '' returned an invalid result - tool call response was undefined''))
   \<and> error_type (ToolException (''MCP tool '' @ apostrophe @ ''add'' @ apostrophe @ '' on server ''
                           @ apostrophe @ ''srv'' @ apostrophe @ '' returned an error: boom''))
     = error_type (ToolException (''MCP tool '' @ apostrophe @ ''add'' @ apostrophe @ '' on server ''
                           @ apostrophe @ ''srv'' @ apostrophe
                           @ '' returned an invalid result - tool call response was undefined''))"
  by (simp add: convertCallToolResult_def error_result_def text_block_def error_prefix_def
        error_type_def)

lemma message_kinds_distinct:
  "error_prefix serverName toolName @ '' returned an error: '' @ x
     \<noteq> error_prefix serverName toolName @ '' returned an invalid result - '' @ y"
  "''Error calling tool '' @ toolName @ '': '' @ z \<noteq> error_prefix serverName toolName @ w"
  by (simp_all add: error_prefix_def)

lemma convert_resolver_error_unwrapped:
  assumes "ctr_content r = ContentArray content" and "ctr_isError r \<noteq> Some True"
    and "c \<in> set content" and "cb_type c = ''resource''"
    and "fst (embeddedResourceToArtifact c client) = Inl e"
  shows "\<exists>c' \<in> set content. \<exists>e'. cb_type c' = ''resource''
           \<and> fst (embeddedResourceToArtifact c' client) = Inl e'
           \<and> fst (convertCallToolResult serverName toolName (Some r) client) = Inl e'"
proof -
  let ?ps = "map (\<lambda>c. embeddedResourceToArtifact c client)
               (filter (\<lambda>c. cb_type c = ''resource'') content)"
  have "embeddedResourceToArtifact c client \<in> set ?ps" using assms(3,4) by simp
  from promise_all_rejects [OF this assms(5), of "settle_time client"]
  obtain p' e' where p': "p' \<in> set ?ps" "fst p' = Inl e'"
    and r: "fst (promise_all (settle_time client) ?ps) = Inl e'"
    by blast
  from p' obtain c' where "c' \<in> set content" "cb_type c' = ''resource''"
    "fst (embeddedResourceToArtifact c' client) = Inl e'"
    by auto
  moreover from r have "fst (convertCallToolResult serverName toolName (Some r) client) = Inl e'"
    unfolding convert_ok_unfold [OF assms(1,2) classify_filtered]
    by (auto split: prod.splits sum.splits)
  ultimately show ?thesis by blast
qed

text \<open>
  Claim C7, amended. Every error the converter and the invoker raise is an instance of the
  one class \<^verbatim>\<open>ToolException\<close>, named "ToolException", whatever its kind, except the errors
  of resolving a resource block. The kinds the adapter raises itself differ in the message
  only: for one server and tool, the upstream-tool message is the fixed beginning followed
  by " returned an error: ", the invalid-result message the same beginning followed by
  " returned an invalid result - ", and the invocation message starts "Error calling
  tool", and no two of these are equal. A \<^verbatim>\<open>ToolException\<close> that the serialisation or the
  transport call raises passes with its message unchanged, whatever that message is. The
  error of resolving a resource block (a failed read, or the \<^verbatim>\<open>TypeError\<close> of a block
  without its nested \<^verbatim>\<open>resource\<close> object) is the error of the conversion and of the
  invocation as it is, not wrapped.
\<close>

theorem errors_single_class:
  "((fst (convertCallToolResult serverName toolName result client) = Inl e
      \<or> fst (callTool JSON_stringify serverName toolName client args) = Inl e) \<longrightarrow>
     error_type e = (True, ''ToolException'')
     \<or> e = TypeError_uri
     \<or> (\<exists>uri. client_readResource client uri = Inl e))
   \<and> (\<forall>r content. ctr_content r = ContentArray content \<and> ctr_isError r = Some True \<longrightarrow>
         (\<exists>x. fst (convertCallToolResult serverName toolName (Some r) client)
               = Inl (ToolException
                       (error_prefix serverName toolName @ '' returned an error: '' @ x))))
   \<and> (\<forall>r. r = None \<or> (\<exists>r'. r = Some r' \<and> (\<forall>content. ctr_content r' \<noteq> ContentArray content))
         \<longrightarrow>
         (\<exists>y. fst (convertCallToolResult serverName toolName r client)
               = Inl (ToolException
                       (error_prefix serverName toolName @ '' returned an invalid result - ''
                        @ y))))
   \<and> (\<forall>error. \<not> instanceof_ToolException error
          \<and> (JSON_stringify args = Inl error
               \<or> (\<exists>json. JSON_stringify args = Inr json)
                  \<and> client_callTool client toolName args = Inl error) \<longrightarrow>
         (\<exists>z. fst (callTool JSON_stringify serverName toolName client args)
               = Inl (ToolException (''Error calling tool '' @ toolName @ '': '' @ z))))
   \<and> (\<forall>x y z w.
         error_prefix serverName toolName @ '' returned an error: '' @ x
           \<noteq> error_prefix serverName toolName @ '' returned an invalid result - '' @ y
         \<and> ''Error calling tool '' @ toolName @ '': '' @ z \<noteq> error_prefix serverName toolName @ w)
   \<and> (\<forall>m. JSON_stringify args = Inl (ToolException m)
            \<or> (\<exists>json. JSON_stringify args = Inr json)
               \<and> client_callTool client toolName args = Inl (ToolException m) \<longrightarrow>
         fst (callTool JSON_stringify serverName toolName client args) = Inl (ToolException m))
   \<and> (\<forall>r content.
         ctr_content r = ContentArray content \<and> ctr_isError r \<noteq> Some True
         \<and> (\<exists>c \<in> set content. cb_type c = ''resource''
                \<and> (\<exists>e'. fst (embeddedResourceToArtifact c client) = Inl e')) \<longrightarrow>
         (\<exists>c \<in> set content. \<exists>e'. cb_type c = ''resource''
            \<and> fst (embeddedResourceToArtifact c client) = Inl e'
            \<and> fst (convertCallToolResult serverName toolName (Some r) client) = Inl e'
            \<and> ((\<exists>json. JSON_stringify args = Inr json)
                 \<and> client_callTool client toolName args = Inr (Some r) \<longrightarrow>
                 fst (callTool JSON_stringify serverName toolName client args) = Inl e')))"
proof -
  have conv: "error_type e = (True, ''ToolException'') \<or> e = TypeError_uri
      \<or> (\<exists>uri. client_readResource client uri = Inl e)"
    if "fst (convertCallToolResult serverName toolName result client) = Inl e" for result
    using convert_error [OF that] resolver_error [of _ client e]
    by (cases e) (auto simp: error_type_def)
  have call: "error_type e = (True, ''ToolException'') \<or> e = TypeError_uri
      \<or> (\<exists>uri. client_readResource client uri = Inl e)"
    if c: "fst (callTool JSON_stringify serverName toolName client args) = Inl e"
  proof (cases "\<exists>json result. JSON_stringify args = Inr json
                  \<and> client_callTool client toolName args = Inr result")
    case True
    then obtain json result where "JSON_stringify args = Inr json"
      "client_callTool client toolName args = Inr result" by blast
    with c have "fst (convertCallToolResult serverName toolName result client) = Inl e"
      by (simp add: callTool_def split: prod.splits)
    then show ?thesis by (rule conv)
  next
    case False
    with c show ?thesis
      by (cases e)
         (auto simp: callTool_def callTool_catch_def error_type_def
               split: sum.splits if_splits prod.splits)
  qed
  have c1: "(fst (convertCallToolResult serverName toolName result client) = Inl e
      \<or> fst (callTool JSON_stringify serverName toolName client args) = Inl e) \<longrightarrow>
     error_type e = (True, ''ToolException'')
     \<or> e = TypeError_uri
     \<or> (\<exists>uri. client_readResource client uri = Inl e)"
    using conv call by blast
  have c2: "\<forall>r content. ctr_content r = ContentArray content \<and> ctr_isError r = Some True \<longrightarrow>
         (\<exists>x. fst (convertCallToolResult serverName toolName (Some r) client)
               = Inl (ToolException
                       (error_prefix serverName toolName @ '' returned an error: '' @ x)))"
    by (auto simp: convertCallToolResult_def)
  have c3: "\<forall>r. r = None \<or> (\<exists>r'. r = Some r' \<and> (\<forall>content. ctr_content r' \<noteq> ContentArray content))
         \<longrightarrow>
         (\<exists>y. fst (convertCallToolResult serverName toolName r client)
               = Inl (ToolException
                       (error_prefix serverName toolName @ '' returned an invalid result - ''
                        @ y)))"
  proof (intro allI impI)
    fix r :: "call_tool_result option"
    assume a: "r = None \<or> (\<exists>r'. r = Some r' \<and> (\<forall>content. ctr_content r' \<noteq> ContentArray content))"
    show "\<exists>y. fst (convertCallToolResult serverName toolName r client)
               = Inl (ToolException
                       (error_prefix serverName toolName @ '' returned an invalid result - ''
                        @ y))"
    proof (cases r)
      case None
      then show ?thesis by (simp add: convertCallToolResult_def)
    next
      case (Some r')
      with a have "\<forall>content. ctr_content r' \<noteq> ContentArray content" by simp
      then show ?thesis unfolding Some
        by (cases "ctr_content r'") (simp_all add: convertCallToolResult_def)
    qed
  qed
  have c4: "\<forall>error. \<not> instanceof_ToolException error
          \<and> (JSON_stringify args = Inl error
               \<or> (\<exists>json. JSON_stringify args = Inr json)
                  \<and> client_callTool client toolName args = Inl error) \<longrightarrow>
         (\<exists>z. fst (callTool JSON_stringify serverName toolName client args)
               = Inl (ToolException (''Error calling tool '' @ toolName @ '': '' @ z)))"
    by (auto simp: callTool_def callTool_catch_def)
  have c5: "\<forall>x y z w.
         error_prefix serverName toolName @ '' returned an error: '' @ x
           \<noteq> error_prefix serverName toolName @ '' returned an invalid result - '' @ y
         \<and> ''Error calling tool '' @ toolName @ '': '' @ z \<noteq> error_prefix serverName toolName @ w"
    using message_kinds_distinct by blast
  have c6: "\<forall>m. JSON_stringify args = Inl (ToolException m)
            \<or> (\<exists>json. JSON_stringify args = Inr json)
               \<and> client_callTool client toolName args = Inl (ToolException m) \<longrightarrow>
         fst (callTool JSON_stringify serverName toolName client args) = Inl (ToolException m)"
    by (auto simp: callTool_def callTool_catch_def)
  have c7: "\<forall>r content.
         ctr_content r = ContentArray content \<and> ctr_isError r \<noteq> Some True
         \<and> (\<exists>c \<in> set content. cb_type c = ''resource''
                \<and> (\<exists>e'. fst (embeddedResourceToArtifact c client) = Inl e')) \<longrightarrow>
         (\<exists>c \<in> set content. \<exists>e'. cb_type c = ''resource''
            \<and> fst (embeddedResourceToArtifact c client) = Inl e'
            \<and> fst (convertCallToolResult serverName toolName (Some r) client) = Inl e'
            \<and> ((\<exists>json. JSON_stringify args = Inr json)
                 \<and> client_callTool client toolName args = Inr (Some r) \<longrightarrow>
                 fst (callTool JSON_stringify serverName toolName client args) = Inl e'))"
  proof (intro allI impI, elim conjE bexE exE)
    fix r :: call_tool_result and content :: "content_block list" and c :: content_block
      and e' :: js_error
    assume a: "ctr_content r = ContentArray content" "ctr_isError r \<noteq> Some True"
      "c \<in> set content" "cb_type c = ''resource''"
      "fst (embeddedResourceToArtifact c client) = Inl e'"
    from convert_resolver_error_unwrapped [OF a, of serverName toolName]
    obtain c' e'' where w: "c' \<in> set content" "cb_type c' = ''resource''"
      "fst (embeddedResourceToArtifact c' client) = Inl e''"
      "fst (convertCallToolResult serverName toolName (Some r) client) = Inl e''"
      by blast
    have "fst (callTool JSON_stringify serverName toolName client args) = Inl e''"
      if "\<exists>json. JSON_stringify args = Inr json"
        "client_callTool client toolName args = Inr (Some r)"
      using that w(4) by (auto simp: callTool_def split: prod.splits)
    with w show "\<exists>c \<in> set content. \<exists>e'. cb_type c = ''resource''
            \<and> fst (embeddedResourceToArtifact c client) = Inl e'
            \<and> fst (convertCallToolResult serverName toolName (Some r) client) = Inl e'
            \<and> ((\<exists>json. JSON_stringify args = Inr json)
                 \<and> client_callTool client toolName args = Inr (Some r) \<longrightarrow>
                 fst (callTool JSON_stringify serverName toolName client args) = Inl e')"
      by blast
  qed
  from c1 c2 c3 c4 c5 c6 c7 show ?thesis by (intro conjI)
qed

theorem errors_single_class_witness:
  "fst (callTool stringify_unit ''srv'' ''add''
          (ex_client\<lparr>client_callTool := \<lambda>n a. Inr (Some (ok_result [reference_resource])),
                     client_readResource := \<lambda>uri. Inl (OtherError ''McpError'' ''Resource not found'')\<rparr>) ())
     = Inl (OtherError ''McpError'' ''Resource not found'')
   \<and> error_type (OtherError ''McpError'' ''Resource not found'') \<noteq> (True, ''ToolException'')
   \<and> fst (callTool stringify_unit ''srv'' ''add''
          (ex_client\<lparr>client_callTool := \<lambda>n a. Inl (OtherError ''Error'' ''Connection closed'')\<rparr>) ())
     = Inl (ToolException ''Error calling tool add: Error: Connection closed'')
   \<and> fst (callTool stringify_unit ''srv'' ''add''
          (ex_client\<lparr>client_callTool := \<lambda>n a. Inr (Some (error_result [text_block ''boom'']))\<rparr>) ())
     \<noteq> fst (callTool stringify_unit ''srv'' ''add''
          (ex_client\<lparr>client_callTool := \<lambda>n a. Inr None\<rparr>) ())"
proof -
  let ?c = "ex_client\<lparr>client_callTool := \<lambda>n a. Inr (Some (ok_result [reference_resource])),
                     client_readResource := \<lambda>uri. Inl (OtherError ''McpError'' ''Resource not found'')\<rparr>"
  let ?c2 = "ex_client\<lparr>client_callTool := \<lambda>n a. Inl (OtherError ''Error'' ''Connection closed'')\<rparr>"
  let ?e = "OtherError ''McpError'' ''Resource not found''"
  have s: "\<exists>json. stringify_unit () = Inr json" by (simp add: stringify_unit_def)
  have h1: "ctr_content (ok_result [reference_resource]) = ContentArray [reference_resource]
      \<and> ctr_isError (ok_result [reference_resource]) \<noteq> Some True"
    by (simp add: ok_result_def)
  have h2: "\<exists>c \<in> set [reference_resource]. cb_type c = ''resource''
                \<and> (\<exists>e'. fst (embeddedResourceToArtifact c ?c) = Inl e')"
    by (simp add: reference_resource_def embeddedResourceToArtifact_def)
  have h3: "client_callTool ?c ''add'' () = Inr (Some (ok_result [reference_resource]))"
    by simp
  have only: "fst (embeddedResourceToArtifact c ?c) = Inl e' \<Longrightarrow> c \<in> set [reference_resource]
      \<Longrightarrow> e' = ?e" for c e'
    by (simp add: reference_resource_def embeddedResourceToArtifact_def)
  note inst = errors_single_class [where JSON_stringify = stringify_unit and args = "()"
         and client = ?c and toolName = "''add''" and serverName = "''srv''"
         and e = ?e and result = None]
  from inst h1 h2 h3 s
  obtain c e' where "c \<in> set [reference_resource]"
    "fst (embeddedResourceToArtifact c ?c) = Inl e'"
    "fst (callTool stringify_unit ''srv'' ''add'' ?c ()) = Inl e'"
    by blast
  with only have 1: "fst (callTool stringify_unit ''srv'' ''add'' ?c ()) = Inl ?e"
    by blast
  have 2: "error_type ?e \<noteq> (True, ''ToolException'')"
    by (simp add: error_type_def)
  have n: "\<not> instanceof_ToolException (OtherError ''Error'' ''Connection closed'')
      \<and> (\<exists>json. stringify_unit () = Inr json)
      \<and> client_callTool ?c2 ''add'' () = Inl (OtherError ''Error'' ''Connection closed'')"
    by (simp add: stringify_unit_def)
  have 3: "fst (callTool stringify_unit ''srv'' ''add'' ?c2 ())
     = Inl (ToolException ''Error calling tool add: Error: Connection closed'')"
    by (simp add: callTool_def callTool_catch_def stringify_unit_def String_error_def)
  have 4: "fst (callTool stringify_unit ''srv'' ''add''
          (ex_client\<lparr>client_callTool := \<lambda>n a. Inr (Some (error_result [text_block ''boom'']))\<rparr>) ())
     \<noteq> fst (callTool stringify_unit ''srv'' ''add''
          (ex_client\<lparr>client_callTool := \<lambda>n a. Inr None\<rparr>) ())"
    by (simp add: callTool_def stringify_unit_def convertCallToolResult_def error_result_def
          error_prefix_def)
  from 1 2 3 4 show ?thesis by simp
qed

section \<open>Properties of the tool catalog loader\<close>

lemma map_logging_lenient:
  "map_logging (load_tool conv s False) ts =
     (Inr (map (\<lambda>t. case construct_tool conv s t of Inl e \<Rightarrow> None | Inr d \<Rightarrow> Some d) ts),
      concat (map (\<lambda>t. snd (load_tool conv s False t)) ts))"
  by (induction ts) (auto simp: load_tool_def split: sum.splits)

lemma filter_Boolean_built:
  "filter_Boolean (map (\<lambda>t. case construct_tool conv s t of Inl e \<Rightarrow> None | Inr d \<Rightarrow> Some d) ts)
   = concat (map (\<lambda>t. case construct_tool conv s t of Inl e \<Rightarrow> [] | Inr d \<Rightarrow> [d]) ts)"
  by (induction ts) (auto split: sum.splits)

lemma map_logging_strict_ok:
  "\<forall>t \<in> set ts. \<exists>d. construct_tool conv s t = Inr d \<Longrightarrow>
   fst (map_logging (load_tool conv s True) ts) =
     Inr (map (\<lambda>t. case construct_tool conv s t of Inl e \<Rightarrow> None | Inr d \<Rightarrow> Some d) ts)"
  by (induction ts) (auto simp: load_tool_def split: sum.splits prod.splits)

lemma map_logging_strict_fail:
  "\<forall>t \<in> set pre. \<exists>d. construct_tool conv s t = Inr d \<Longrightarrow> construct_tool conv s tool = Inl error \<Longrightarrow>
   fst (map_logging (load_tool conv s True) (pre @ tool # post)) = Inl error"
  by (induction pre) (auto simp: load_tool_def split: sum.splits prod.splits)

lemma map_logging_no_ListTools:
  "ListTools \<notin> set (snd (map_logging (load_tool conv s strict) ts))"
  by (induction ts) (auto simp: load_tool_def split: sum.splits prod.splits)

lemma loadMcpTools_unfold:
  "client_listTools client = Inr toolsResponse \<Longrightarrow>
   loadMcpTools conv s client strict =
     (case map_logging (load_tool conv s strict)
             (filter (\<lambda>tool. truthy (tool_name tool))
                (case toolsResponse of None \<Rightarrow> [] | Some tools \<Rightarrow> tools)) of
        (r, tr) \<Rightarrow>
          (case r of Inl e \<Rightarrow> Inl e | Inr loaded \<Rightarrow> Inr (filter_Boolean loaded),
           [ListTools,
            DebugLog (''INFO: Found ''
                      @ String_nat (case toolsResponse of None \<Rightarrow> 0 | Some tools \<Rightarrow> length tools)
                      @ '' MCP tools'')] @ tr))"
  by (auto simp: loadMcpTools_def split: prod.splits sum.splits)

lemma load_tool_logs_failure:
  "construct_tool conv s t = Inl e \<Longrightarrow>
   snd (load_tool conv s strict t) =
     [DebugLogError (''ERROR: Failed to load tool '' @ double_quote @ tmpl (tool_name t)
                     @ double_quote @ '':'') e]"
  by (simp add: load_tool_def)

lemma map_throwing_built:
  "map_throwing (construct_tool conv s) ts = Inr built \<Longrightarrow>
   (\<forall>t \<in> set ts. \<exists>d. construct_tool conv s t = Inr d)
   \<and> map (\<lambda>t. case construct_tool conv s t of Inl e \<Rightarrow> None | Inr d \<Rightarrow> Some d) ts = map Some built"
  by (induction ts arbitrary: built) (auto split: sum.splits)

lemma filter_Boolean_map_Some: "filter_Boolean (map Some xs) = xs"
  by (induction xs) auto

text \<open>
  Claim C5. Let \<open>named\<close> be the advertised tools with a non-empty name, and let \<open>tool\<close> be
  the first of them whose construction fails, with \<open>error\<close>. Under the strict policy the
  load fails with \<open>error\<close> and returns no list. Under the lenient policy the load returns,
  in order, the constructed tools of exactly the named descriptors whose construction
  succeeds, and the debug log holds an error line for every one that fails.
\<close>

theorem fail_policy:
  assumes "client_listTools client = Inr toolsResponse"
    and "named = filter (\<lambda>tool. truthy (tool_name tool))
                   (case toolsResponse of None \<Rightarrow> [] | Some tools \<Rightarrow> tools)"
    and "named = pre @ tool # post"
    and "\<forall>t \<in> set pre. \<exists>d. construct_tool conv s t = Inr d"
    and "construct_tool conv s tool = Inl error"
  shows "fst (loadMcpTools conv s client True) = Inl error
       \<and> fst (loadMcpTools conv s client False)
           = Inr (concat (map (\<lambda>t. case construct_tool conv s t of Inl e \<Rightarrow> [] | Inr d \<Rightarrow> [d])
                            named))
       \<and> (\<forall>t \<in> set named. \<forall>e. construct_tool conv s t = Inl e \<longrightarrow>
             DebugLogError (''ERROR: Failed to load tool '' @ double_quote @ tmpl (tool_name t)
                            @ double_quote @ '':'') e
               \<in> set (snd (loadMcpTools conv s client False)))"
proof -
  note unf = loadMcpTools_unfold [OF assms(1), of conv s, folded assms(2)]
  have strict: "fst (loadMcpTools conv s client True) = Inl error"
    unfolding unf assms(3)
    by (simp add: case_prod_beta map_logging_strict_fail [OF assms(4) assms(5)])
  have lenient: "fst (loadMcpTools conv s client False)
           = Inr (concat (map (\<lambda>t. case construct_tool conv s t of Inl e \<Rightarrow> [] | Inr d \<Rightarrow> [d])
                            named))"
    unfolding unf by (simp add: map_logging_lenient filter_Boolean_built)
  have logged: "DebugLogError (''ERROR: Failed to load tool '' @ double_quote @ tmpl (tool_name t)
                            @ double_quote @ '':'') e
               \<in> set (snd (loadMcpTools conv s client False))"
    if "t \<in> set named" "construct_tool conv s t = Inl e" for t e
  proof -
    have "DebugLogError (''ERROR: Failed to load tool '' @ double_quote @ tmpl (tool_name t)
                            @ double_quote @ '':'') e
          \<in> set (snd (load_tool conv s False t))"
      by (simp add: load_tool_logs_failure [OF that(2)])
    with that(1) show ?thesis
      unfolding unf by (auto simp: map_logging_lenient)
  qed
  from strict lenient logged show ?thesis by blast
qed

theorem fail_policy_witness:
  "fst (loadMcpTools ex_convert ''srv''
          (ex_client\<lparr>client_listTools := Inr (Some [add_tool, broken_tool, search_tool])\<rparr>) True)
     = Inl (OtherError ''Error'' ''Unsupported schema'')
   \<and> fst (loadMcpTools ex_convert ''srv''
          (ex_client\<lparr>client_listTools := Inr (Some [add_tool, broken_tool, search_tool])\<rparr>) False)
     = Inr [new_DynamicStructuredTool ''srv'' add_tool empty_object_schema,
            new_DynamicStructuredTool ''srv'' search_tool (JObj [(''type'', JStr ''object'')])]
   \<and> DebugLogError (''ERROR: Failed to load tool '' @ double_quote @ ''broken'' @ double_quote @ '':'')
        (OtherError ''Error'' ''Unsupported schema'')
       \<in> set (snd (loadMcpTools ex_convert ''srv''
          (ex_client\<lparr>client_listTools := Inr (Some [add_tool, broken_tool, search_tool])\<rparr>) False))"
proof -
  let ?c = "ex_client\<lparr>client_listTools := Inr (Some [add_tool, broken_tool, search_tool])\<rparr>"
  have h1: "client_listTools ?c = Inr (Some [add_tool, broken_tool, search_tool])"
    by simp
  have h2: "[add_tool, broken_tool, search_tool]
      = filter (\<lambda>tool. truthy (tool_name tool))
          (case Some [add_tool, broken_tool, search_tool] of None \<Rightarrow> [] | Some tools \<Rightarrow> tools)"
    by (simp add: add_tool_def broken_tool_def search_tool_def)
  have h3: "[add_tool, broken_tool, search_tool] = [add_tool] @ broken_tool # [search_tool]"
    by simp
  have ca: "construct_tool ex_convert ''srv'' add_tool
      = Inr (new_DynamicStructuredTool ''srv'' add_tool empty_object_schema)"
    by (simp add: construct_tool_def ex_convert_def input_schema_def add_tool_def
          empty_object_schema_def bad_schema_def)
  have cs: "construct_tool ex_convert ''srv'' search_tool
      = Inr (new_DynamicStructuredTool ''srv'' search_tool (JObj [(''type'', JStr ''object'')]))"
    by (simp add: construct_tool_def ex_convert_def input_schema_def search_tool_def bad_schema_def)
  have h4: "\<forall>t \<in> set [add_tool]. \<exists>d. construct_tool ex_convert ''srv'' t = Inr d"
    using ca by simp
  have h5: "construct_tool ex_convert ''srv'' broken_tool = Inl (OtherError ''Error'' ''Unsupported schema'')"
    by (simp add: construct_tool_def ex_convert_def input_schema_def broken_tool_def bad_schema_def)
  have n: "tool_name broken_tool = Some ''broken''" by (simp add: broken_tool_def)
  from fail_policy [OF h1 h2 h3 h4 h5] ca cs h5 n
  show ?thesis by simp
qed

lemma count_ListTools_logs:
  "ListTools \<notin> set tr \<Longrightarrow> length (filter (\<lambda>ev. ev = ListTools) tr) = 0"
  by (induction tr) auto

text \<open>
  Claim C9. The advertised tools whose name is absent or empty do not matter to what the
  load returns: the result is the result of loading the catalog without them, and so are
  the log lines of the individual tools. When every named descriptor can be constructed,
  the returned list is exactly their constructed tools, in order, whatever the schemas of
  the unnamed ones are. Every load issues exactly one request for the tool list.
\<close>

theorem unnamed_tools_discarded:
  "(\<forall>tools. client_listTools client = Inr (Some tools) \<longrightarrow>
      fst (loadMcpTools conv s client strict)
        = fst (loadMcpTools conv s
                 (client\<lparr>client_listTools :=
                            Inr (Some (filter (\<lambda>tool. truthy (tool_name tool)) tools))\<rparr>) strict)
      \<and> drop 2 (snd (loadMcpTools conv s client strict))
        = drop 2 (snd (loadMcpTools conv s
                 (client\<lparr>client_listTools :=
                            Inr (Some (filter (\<lambda>tool. truthy (tool_name tool)) tools))\<rparr>) strict))
      \<and> (\<forall>built. map_throwing (construct_tool conv s)
                     (filter (\<lambda>tool. truthy (tool_name tool)) tools) = Inr built \<longrightarrow>
             fst (loadMcpTools conv s client strict) = Inr built))
   \<and> length (filter (\<lambda>ev. ev = ListTools) (snd (loadMcpTools conv s client strict))) = 1"
proof -
  have once: "length (filter (\<lambda>ev. ev = ListTools) (snd (loadMcpTools conv s client strict))) = 1"
  proof (cases "client_listTools client")
    case (Inl e)
    then show ?thesis by (simp add: loadMcpTools_def)
  next
    case (Inr toolsResponse)
    show ?thesis
      unfolding loadMcpTools_unfold [OF Inr]
      by (simp add: case_prod_beta count_ListTools_logs [OF map_logging_no_ListTools])
  qed
  have same: "fst (loadMcpTools conv s client strict)
        = fst (loadMcpTools conv s
                 (client\<lparr>client_listTools :=
                            Inr (Some (filter (\<lambda>tool. truthy (tool_name tool)) tools))\<rparr>) strict)
      \<and> drop 2 (snd (loadMcpTools conv s client strict))
        = drop 2 (snd (loadMcpTools conv s
                 (client\<lparr>client_listTools :=
                            Inr (Some (filter (\<lambda>tool. truthy (tool_name tool)) tools))\<rparr>) strict))"
    if lt: "client_listTools client = Inr (Some tools)" for tools
  proof -
    have lt': "client_listTools (client\<lparr>client_listTools :=
                            Inr (Some (filter (\<lambda>tool. truthy (tool_name tool)) tools))\<rparr>)
          = Inr (Some (filter (\<lambda>tool. truthy (tool_name tool)) tools))"
      by simp
    show ?thesis
      unfolding loadMcpTools_unfold [OF lt] loadMcpTools_unfold [OF lt']
      by (simp add: case_prod_beta)
  qed
  have built: "fst (loadMcpTools conv s client strict) = Inr built"
    if lt: "client_listTools client = Inr (Some tools)"
      and b: "map_throwing (construct_tool conv s)
                (filter (\<lambda>tool. truthy (tool_name tool)) tools) = Inr built" for tools built
  proof -
    let ?named = "filter (\<lambda>tool. truthy (tool_name tool)) tools"
    from map_throwing_built [OF b]
    have ok: "\<forall>t \<in> set ?named. \<exists>d. construct_tool conv s t = Inr d"
      and m: "map (\<lambda>t. case construct_tool conv s t of Inl e \<Rightarrow> None | Inr d \<Rightarrow> Some d) ?named
              = map Some built"
      by blast+
    have r: "fst (map_logging (load_tool conv s strict) ?named) = Inr (map Some built)"
    proof (cases strict)
      case True
      then have "strict = True" by simp
      then show ?thesis using map_logging_strict_ok [OF ok] m by simp
    next
      case False
      then have "strict = False" by simp
      then show ?thesis using m by (simp add: map_logging_lenient)
    qed
    show ?thesis
      unfolding loadMcpTools_unfold [OF lt]
      by (simp add: case_prod_beta r filter_Boolean_map_Some)
  qed
  from once same built show ?thesis by blast
qed

theorem unnamed_tools_discarded_witness:
  "fst (loadMcpTools ex_convert ''srv''
          (ex_client\<lparr>client_listTools := Inr (Some [add_tool, unnamed_tool, search_tool])\<rparr>) True)
     = Inr [new_DynamicStructuredTool ''srv'' add_tool empty_object_schema,
            new_DynamicStructuredTool ''srv'' search_tool (JObj [(''type'', JStr ''object'')])]
   \<and> length (filter (\<lambda>ev. ev = ListTools)
        (snd (loadMcpTools ex_convert ''srv''
          (ex_client\<lparr>client_listTools := Inr (Some [add_tool, unnamed_tool, search_tool])\<rparr>) True)))
     = 1"
proof -
  let ?c = "ex_client\<lparr>client_listTools := Inr (Some [add_tool, unnamed_tool, search_tool])\<rparr>"
  have h1: "client_listTools ?c = Inr (Some [add_tool, unnamed_tool, search_tool])"
    by simp
  have ca: "construct_tool ex_convert ''srv'' add_tool
      = Inr (new_DynamicStructuredTool ''srv'' add_tool empty_object_schema)"
    by (simp add: construct_tool_def ex_convert_def input_schema_def add_tool_def
          empty_object_schema_def bad_schema_def)
  have cs: "construct_tool ex_convert ''srv'' search_tool
      = Inr (new_DynamicStructuredTool ''srv'' search_tool (JObj [(''type'', JStr ''object'')]))"
    by (simp add: construct_tool_def ex_convert_def input_schema_def search_tool_def bad_schema_def)
  have f: "filter (\<lambda>tool. truthy (tool_name tool)) [add_tool, unnamed_tool, search_tool]
      = [add_tool, search_tool]"
    by (simp add: add_tool_def unnamed_tool_def search_tool_def)
  have h2: "map_throwing (construct_tool ex_convert ''srv'')
        (filter (\<lambda>tool. truthy (tool_name tool)) [add_tool, unnamed_tool, search_tool])
      = Inr [new_DynamicStructuredTool ''srv'' add_tool empty_object_schema,
            new_DynamicStructuredTool ''srv'' search_tool (JObj [(''type'', JStr ''object'')])]"
    unfolding f by (simp add: ca cs)
  from unnamed_tools_discarded [where client = ?c and conv = ex_convert and s = "''srv''"
         and strict = True] h1 h2
  show ?thesis by blast
qed

end
